theory Spec2Isabelle
  imports Complex_Main "HOL-Library.AList" "HOL-Library.Sublist"
begin

section \<open>Values, documents and errors\<close>

text \<open>
  Request bodies and stored documents are Python dicts with string keys: association
  lists in insertion order (\<open>map_of\<close> reads a key, \<open>AList.update\<close> assigns one,
  \<open>AList.delete\<close> pops one). A float is modelled by a real number: the code only
  compares floats with bounds and never computes with them, and NaN and the infinities
  are left out. \<open>VOid\<close> is an identifier generated by the store.
\<close>

datatype val =
    VNull
  | VBool bool
  | VInt int
  | VFloat real
  | VStr string
  | VList "val list"
  | VDoc "(string \<times> val) list"
  | VOid nat

type_synonym document = "(string \<times> val) list"

text \<open>
  The failures of a request. \<open>ValidationError\<close> is raised by the framework from the
  declared parameter and body types before the handler body runs; \<open>HTTPException\<close> is
  raised by a handler with a status code and a detail; the two store errors are
  exceptions of the store accessor, which no data handler catches.
\<close>

datatype error =
    ValidationError
  | HTTPException nat string
  | StoreUnavailable
  | StoreOperationError

text \<open>The status code of the response: 422 for a rejected request, the code of an
  \<open>HTTPException\<close>, 500 for an exception nobody handles, 200 for a normal return.\<close>

fun status_code :: "error \<Rightarrow> nat" where
  "status_code ValidationError = 422"
| "status_code (HTTPException c d) = c"
| "status_code StoreUnavailable = 500"
| "status_code StoreOperationError = 500"

definition http_status :: "error + 'a \<Rightarrow> nat" where
  "http_status r = (case r of Inl e \<Rightarrow> status_code e | Inr x \<Rightarrow> 200)"

text \<open>
  What the handlers use of their platform and neither this repository nor its
  specification defines: Python's \<open>str()\<close> on a stored value, and the store's regular
  expression compiler on patterns beyond literals and the dot (\<open>None\<close> for a malformed
  pattern, else the search predicate on a subject string).
\<close>

record runtime =
  str_of :: "val \<Rightarrow> string"
  regex_other :: "string \<Rightarrow> string \<Rightarrow> (string \<Rightarrow> bool) option"

section \<open>Record definitions (schemas.py)\<close>

text \<open>
  Each field reader follows one \<open>Field\<close> declaration: \<open>...\<close> is a required field,
  a default makes it optional, \<open>ge\<close> is a lower bound. A value of the declared JSON type
  is accepted (an integer also where a float is declared); a value of another type is
  rejected here, the version-dependent coercions of the validation library are not
  modelled.
\<close>

definition num_of :: "val \<Rightarrow> real option" where
  "num_of v = (case v of VInt i \<Rightarrow> Some (real_of_int i) | VFloat x \<Rightarrow> Some x | _ \<Rightarrow> None)"

definition req_str :: "document \<Rightarrow> string \<Rightarrow> error + string" where
  "req_str p k = (case map_of p k of Some (VStr s) \<Rightarrow> Inr s | _ \<Rightarrow> Inl ValidationError)"

definition opt_str :: "document \<Rightarrow> string \<Rightarrow> error + string option" where
  "opt_str p k =
     (case map_of p k of
        None \<Rightarrow> Inr None
      | Some VNull \<Rightarrow> Inr None
      | Some (VStr s) \<Rightarrow> Inr (Some s)
      | _ \<Rightarrow> Inl ValidationError)"

definition str_default :: "document \<Rightarrow> string \<Rightarrow> string \<Rightarrow> error + string" where
  "str_default p k dflt =
     (case map_of p k of
        None \<Rightarrow> Inr dflt
      | Some (VStr s) \<Rightarrow> Inr s
      | _ \<Rightarrow> Inl ValidationError)"

definition bool_default :: "document \<Rightarrow> string \<Rightarrow> bool \<Rightarrow> error + bool" where
  "bool_default p k dflt =
     (case map_of p k of
        None \<Rightarrow> Inr dflt
      | Some (VBool b) \<Rightarrow> Inr b
      | _ \<Rightarrow> Inl ValidationError)"

definition req_float_ge :: "document \<Rightarrow> string \<Rightarrow> real \<Rightarrow> error + real" where
  "req_float_ge p k lo =
     (case map_of p k of
        None \<Rightarrow> Inl ValidationError
      | Some v \<Rightarrow>
          (case num_of v of
             None \<Rightarrow> Inl ValidationError
           | Some x \<Rightarrow> if lo \<le> x then Inr x else Inl ValidationError))"

definition req_int_ge :: "document \<Rightarrow> string \<Rightarrow> int \<Rightarrow> error + int" where
  "req_int_ge p k lo =
     (case map_of p k of
        Some (VInt i) \<Rightarrow> if lo \<le> i then Inr i else Inl ValidationError
      | _ \<Rightarrow> Inl ValidationError)"

text \<open>Sequencing of validations: the first failure is the result.\<close>

definition bind_err :: "error + 'a \<Rightarrow> ('a \<Rightarrow> error + 'b) \<Rightarrow> error + 'b" where
  "bind_err m f = (case m of Inl e \<Rightarrow> Inl e | Inr x \<Rightarrow> f x)"

record Category =
  cat_name :: string
  slug :: string

record Product =
  title :: string
  description :: "string option"
  price :: real
  category :: string
  brand :: "string option"
  image :: "string option"
  in_stock :: bool

record OrderItem =
  item_product_id :: string
  item_title :: string
  item_price :: real
  quantity :: int

record Order =
  order_user_email :: string
  shipping_address :: string
  payment_method :: string
  status :: string
  items :: "OrderItem list"
  total :: real

record Wishlist =
  wish_user_email :: string
  wish_product_id :: string

definition validate_Category :: "document \<Rightarrow> error + Category" where
  "validate_Category p =
     bind_err (req_str p ''name'') (\<lambda>n.
     bind_err (req_str p ''slug'') (\<lambda>s.
     Inr \<lparr>cat_name = n, slug = s\<rparr>))"

definition validate_Product :: "document \<Rightarrow> error + Product" where
  "validate_Product p =
     bind_err (req_str p ''title'') (\<lambda>t.
     bind_err (opt_str p ''description'') (\<lambda>d.
     bind_err (req_float_ge p ''price'' 0) (\<lambda>pr.
     bind_err (req_str p ''category'') (\<lambda>c.
     bind_err (opt_str p ''brand'') (\<lambda>b.
     bind_err (opt_str p ''image'') (\<lambda>i.
     bind_err (bool_default p ''in_stock'' True) (\<lambda>s.
     Inr \<lparr>title = t, description = d, price = pr, category = c,
          brand = b, image = i, in_stock = s\<rparr>)))))))"

definition validate_OrderItem :: "val \<Rightarrow> error + OrderItem" where
  "validate_OrderItem v =
     (case v of
        VDoc p \<Rightarrow>
          bind_err (req_str p ''product_id'') (\<lambda>pid.
          bind_err (req_str p ''title'') (\<lambda>t.
          bind_err (req_float_ge p ''price'' 0) (\<lambda>pr.
          bind_err (req_int_ge p ''quantity'' 1) (\<lambda>q.
          Inr \<lparr>item_product_id = pid, item_title = t, item_price = pr, quantity = q\<rparr>))))
      | _ \<Rightarrow> Inl ValidationError)"

fun validate_items :: "val list \<Rightarrow> error + OrderItem list" where
  "validate_items [] = Inr []"
| "validate_items (v # vs) =
     bind_err (validate_OrderItem v) (\<lambda>it.
     bind_err (validate_items vs) (\<lambda>its. Inr (it # its)))"

definition req_items :: "document \<Rightarrow> string \<Rightarrow> error + OrderItem list" where
  "req_items p k =
     (case map_of p k of Some (VList vs) \<Rightarrow> validate_items vs | _ \<Rightarrow> Inl ValidationError)"

definition validate_Order :: "document \<Rightarrow> error + Order" where
  "validate_Order p =
     bind_err (req_str p ''user_email'') (\<lambda>u.
     bind_err (req_str p ''shipping_address'') (\<lambda>a.
     bind_err (req_str p ''payment_method'') (\<lambda>m.
     bind_err (str_default p ''status'' ''pending'') (\<lambda>st.
     bind_err (req_items p ''items'') (\<lambda>its.
     bind_err (req_float_ge p ''total'' 0) (\<lambda>tot.
     Inr \<lparr>order_user_email = u, shipping_address = a, payment_method = m,
          status = st, items = its, total = tot\<rparr>))))))"

definition validate_Wishlist :: "document \<Rightarrow> error + Wishlist" where
  "validate_Wishlist p =
     bind_err (req_str p ''user_email'') (\<lambda>u.
     bind_err (req_str p ''product_id'') (\<lambda>pid.
     Inr \<lparr>wish_user_email = u, wish_product_id = pid\<rparr>))"

text \<open>A validated record as the dict of its declared fields, in declaration order.\<close>

definition opt_val :: "string option \<Rightarrow> val" where
  "opt_val x = (case x of None \<Rightarrow> VNull | Some s \<Rightarrow> VStr s)"

definition dump_Category :: "Category \<Rightarrow> document" where
  "dump_Category c = [(''name'', VStr (cat_name c)), (''slug'', VStr (slug c))]"

definition dump_Product :: "Product \<Rightarrow> document" where
  "dump_Product p =
     [(''title'', VStr (title p)), (''description'', opt_val (description p)),
      (''price'', VFloat (price p)), (''category'', VStr (category p)),
      (''brand'', opt_val (brand p)), (''image'', opt_val (image p)),
      (''in_stock'', VBool (in_stock p))]"

definition dump_OrderItem :: "OrderItem \<Rightarrow> val" where
  "dump_OrderItem it =
     VDoc [(''product_id'', VStr (item_product_id it)), (''title'', VStr (item_title it)),
           (''price'', VFloat (item_price it)), (''quantity'', VInt (quantity it))]"

definition dump_Order :: "Order \<Rightarrow> document" where
  "dump_Order ord =
     [(''user_email'', VStr (order_user_email ord)),
      (''shipping_address'', VStr (shipping_address ord)),
      (''payment_method'', VStr (payment_method ord)),
      (''status'', VStr (status ord)),
      (''items'', VList (map dump_OrderItem (items ord))),
      (''total'', VFloat (total ord))]"

definition dump_Wishlist :: "Wishlist \<Rightarrow> document" where
  "dump_Wishlist w =
     [(''user_email'', VStr (wish_user_email w)), (''product_id'', VStr (wish_product_id w))]"

section \<open>Filters of the store\<close>

text \<open>
  The conditions the handlers put into a filter dict: a string for an exact match,
  \<open>{"$regex": p, "$options": o}\<close>, and a dict with \<open>"$gte"\<close> and \<open>"$lte"\<close> entries
  (\<open>None\<close> for a missing entry). A filter is a dict from field names to conditions.
\<close>

datatype cond =
    CEq string
  | CRegex string string
  | CRange "real option" "real option"

type_synonym query = "(string \<times> cond) list"

text \<open>
  Regular expressions. A pattern is searched anywhere in the subject. Patterns made of
  ordinary characters and dots are interpreted here; every pattern that contains
  another operator character is left to \<open>regex_other\<close>. Texts are ASCII, and ignoring
  case identifies the letters A to Z with a to z.
\<close>

datatype rx = Lit char | AnyChar

definition regex_meta :: "char list" where
  "regex_meta = CHR 0x5C # ''^$.[]|()?*+{}''"

definition lower :: "char \<Rightarrow> char" where
  "lower c =
     (case map_of (zip ''ABCDEFGHIJKLMNOPQRSTUVWXYZ'' ''abcdefghijklmnopqrstuvwxyz'') c of
        None \<Rightarrow> c
      | Some l \<Rightarrow> l)"

fun parse_simple :: "string \<Rightarrow> rx list option" where
  "parse_simple [] = Some []"
| "parse_simple (c # cs) =
     (if c = CHR ''.'' then map_option ((#) AnyChar) (parse_simple cs)
      else if c \<in> set regex_meta then None
      else map_option ((#) (Lit c)) (parse_simple cs))"

fun rx_item :: "bool \<Rightarrow> rx \<Rightarrow> char \<Rightarrow> bool" where
  "rx_item ci (Lit a) c = (if ci then lower a = lower c else a = c)"
| "rx_item ci AnyChar c = (c \<noteq> CHR 0x0A)"

fun rx_here :: "bool \<Rightarrow> rx list \<Rightarrow> string \<Rightarrow> bool" where
  "rx_here ci [] s = True"
| "rx_here ci (r # rs) [] = False"
| "rx_here ci (r # rs) (c # cs) = (rx_item ci r c \<and> rx_here ci rs cs)"

fun rx_search :: "bool \<Rightarrow> rx list \<Rightarrow> string \<Rightarrow> bool" where
  "rx_search ci rs [] = rx_here ci rs []"
| "rx_search ci rs (c # cs) = (rx_here ci rs (c # cs) \<or> rx_search ci rs cs)"

text \<open>
  The words of the specification for the text filter: \<open>q\<close> is a substring of the
  title when case is ignored.
\<close>

definition ci_substring :: "string \<Rightarrow> string \<Rightarrow> bool" where
  "ci_substring q t = sublist (map lower q) (map lower t)"

definition compile_regex :: "runtime \<Rightarrow> string \<Rightarrow> string \<Rightarrow> (string \<Rightarrow> bool) option" where
  "compile_regex rt pattern opts =
     (if opts = [] \<or> opts = ''i''
      then (case parse_simple pattern of
              Some rs \<Rightarrow> Some (rx_search (opts = ''i'') rs)
            | None \<Rightarrow> regex_other rt pattern opts)
      else regex_other rt pattern opts)"

text \<open>
  When a condition is well formed, and when the value of the field (\<open>None\<close> for a
  document without the field) satisfies it: equality with the string, a string in which
  the pattern is found, a number within the inclusive bounds that are present.
\<close>

definition cond_ok :: "runtime \<Rightarrow> cond \<Rightarrow> bool" where
  "cond_ok rt c =
     (case c of
        CRegex p opts \<Rightarrow> (case compile_regex rt p opts of None \<Rightarrow> False | Some m \<Rightarrow> True)
      | _ \<Rightarrow> True)"

definition in_range :: "real option \<Rightarrow> real option \<Rightarrow> real \<Rightarrow> bool" where
  "in_range lo hi n =
     ((case lo of None \<Rightarrow> True | Some a \<Rightarrow> a \<le> n) \<and> (case hi of None \<Rightarrow> True | Some b \<Rightarrow> n \<le> b))"

definition holds :: "runtime \<Rightarrow> cond \<Rightarrow> val option \<Rightarrow> bool" where
  "holds rt c x =
     (case c of
        CEq s \<Rightarrow> x = Some (VStr s)
      | CRegex p opts \<Rightarrow>
          (case compile_regex rt p opts of
             None \<Rightarrow> False
           | Some m \<Rightarrow> (case x of Some (VStr t) \<Rightarrow> m t | _ \<Rightarrow> False))
      | CRange lo hi \<Rightarrow>
          (case x of
             None \<Rightarrow> False
           | Some v \<Rightarrow> (case num_of v of None \<Rightarrow> False | Some n \<Rightarrow> in_range lo hi n)))"

definition matches :: "runtime \<Rightarrow> query \<Rightarrow> document \<Rightarrow> bool" where
  "matches rt filter_dict d = list_all (\<lambda>(k, c). holds rt c (map_of d k)) filter_dict"

section \<open>The document store and its accessor\<close>

text \<open>
  The connection handle \<open>db\<close> of the absent module \<open>database\<close>: \<open>None\<close> when no
  connection was established at start-up. Of a handle the handlers read the attribute
  \<open>name\<close> (\<open>Inl m\<close>: reading it raises an exception with message \<open>m\<close>; \<open>Inr None\<close>: there
  is no such attribute) and call \<open>list_collection_names\<close>. \<open>failure = Some m\<close> is a
  store that cannot be reached: every access raises an exception with message \<open>m\<close>.
  The collections hold their documents in insertion order; \<open>fresh\<close> is the next
  identifier the store assigns.
\<close>

record database =
  failure :: "string option"
  name_attr :: "string + string option"
  colls :: "(string \<times> document list) list"
  fresh :: nat

definition docs_of :: "database \<Rightarrow> string \<Rightarrow> document list" where
  "docs_of s c = (case map_of (colls s) c of None \<Rightarrow> [] | Some ds \<Rightarrow> ds)"

definition list_collection_names :: "database \<Rightarrow> string + string list" where
  "list_collection_names s =
     (case failure s of Some m \<Rightarrow> Inl m | None \<Rightarrow> Inr (map fst (colls s)))"

text \<open>
  Modelled from the spec: \<open>create_document\<close> of the absent module \<open>database\<close>, the
  insert-one of the store accessor. It is unavailable without a connection or with an
  unreachable store; otherwise it appends one document, the dict of the validated
  record under a newly assigned identifier, and returns the identifier as a string.
\<close>

definition create_document ::
  "runtime \<Rightarrow> database option \<Rightarrow> string \<Rightarrow> document \<Rightarrow> (error + string) \<times> database option" where
  "create_document rt db collection_name data =
     (case db of
        None \<Rightarrow> (Inl StoreUnavailable, db)
      | Some s \<Rightarrow>
          (case failure s of
             Some m \<Rightarrow> (Inl StoreUnavailable, db)
           | None \<Rightarrow>
               (let oid = VOid (fresh s);
                    doc = (''_id'', oid) # data
                in (Inr (str_of rt oid),
                    Some (s\<lparr>colls := AList.update collection_name
                                       (docs_of s collection_name @ [doc]) (colls s),
                            fresh := Suc (fresh s)\<rparr>)))))"

text \<open>
  Modelled from the spec: \<open>get_documents\<close> of the absent module \<open>database\<close>, the
  find-with-filter-and-limit of the store accessor. It is unavailable without a
  connection or with an unreachable store, fails on a filter the store rejects, and
  otherwise returns the documents of the collection that satisfy every condition of the
  filter, in stored order, capped at \<open>limit\<close>.
\<close>

definition get_documents ::
  "runtime \<Rightarrow> database option \<Rightarrow> string \<Rightarrow> query \<Rightarrow> int \<Rightarrow> error + document list" where
  "get_documents rt db collection_name filter_dict limit =
     (case db of
        None \<Rightarrow> Inl StoreUnavailable
      | Some s \<Rightarrow>
          (case failure s of
             Some m \<Rightarrow> Inl StoreUnavailable
           | None \<Rightarrow>
               if list_all (\<lambda>(k, c). cond_ok rt c) filter_dict
               then Inr (take (nat limit) (filter (matches rt filter_dict) (docs_of s collection_name)))
               else Inl StoreOperationError))"

section \<open>Route handlers (main.py): creation\<close>

text \<open>
  A POST handler receives the request body as a dict. The framework validates it against
  the declared record type and calls the handler body only with a validated record.
\<close>

definition create_product ::
  "runtime \<Rightarrow> database option \<Rightarrow> document \<Rightarrow> (error + string) \<times> database option" where
  "create_product rt db payload =
     (case validate_Product payload of
        Inl e \<Rightarrow> (Inl e, db)
      | Inr product \<Rightarrow> create_document rt db ''product'' (dump_Product product))"

definition create_category ::
  "runtime \<Rightarrow> database option \<Rightarrow> document \<Rightarrow> (error + string) \<times> database option" where
  "create_category rt db payload =
     (case validate_Category payload of
        Inl e \<Rightarrow> (Inl e, db)
      | Inr cat \<Rightarrow> create_document rt db ''category'' (dump_Category cat))"

definition add_to_wishlist ::
  "runtime \<Rightarrow> database option \<Rightarrow> document \<Rightarrow> (error + string) \<times> database option" where
  "add_to_wishlist rt db payload =
     (case validate_Wishlist payload of
        Inl e \<Rightarrow> (Inl e, db)
      | Inr item \<Rightarrow> create_document rt db ''wishlist'' (dump_Wishlist item))"

definition create_order ::
  "runtime \<Rightarrow> database option \<Rightarrow> document \<Rightarrow> (error + string) \<times> database option" where
  "create_order rt db payload =
     (case validate_Order payload of
        Inl e \<Rightarrow> (Inl e, db)
      | Inr order \<Rightarrow> create_document rt db ''order'' (dump_Order order))"

section \<open>Route handlers (main.py): listing\<close>

text \<open>
  The filter dict of \<open>list_products\<close> (lines 37 to 51). \<open>if q:\<close> is Python truthiness:
  \<open>None\<close> and the empty string are both false. The bounds are tested with
  \<open>is not None\<close>, and the price entry is set when the dict of bounds is not empty.
\<close>

definition truthy :: "string option \<Rightarrow> bool" where
  "truthy x = (case x of None \<Rightarrow> False | Some s \<Rightarrow> s \<noteq> [])"

definition text_of :: "string option \<Rightarrow> string" where
  "text_of x = (case x of None \<Rightarrow> [] | Some s \<Rightarrow> s)"

definition products_query ::
  "string option \<Rightarrow> string option \<Rightarrow> string option \<Rightarrow> real option \<Rightarrow> real option \<Rightarrow> query" where
  "products_query q category_p brand_p min_price max_price =
     (let query = [];
          query = (if truthy q
                   then AList.update ''title'' (CRegex (text_of q) ''i'') query else query);
          query = (if truthy category_p
                   then AList.update ''category'' (CEq (text_of category_p)) query else query);
          query = (if truthy brand_p
                   then AList.update ''brand'' (CEq (text_of brand_p)) query else query)
      in if min_price \<noteq> None \<or> max_price \<noteq> None
         then AList.update ''price'' (CRange min_price max_price) query else query)"

text \<open>
  The loop that ends every list handler: \<open>if "_id" in d: d["id"] = str(d.pop("_id"))\<close>.
\<close>

definition id_to_string :: "runtime \<Rightarrow> document \<Rightarrow> document" where
  "id_to_string rt d =
     (case map_of d ''_id'' of
        None \<Rightarrow> d
      | Some i \<Rightarrow> AList.update ''id'' (VStr (str_of rt i)) (AList.delete ''_id'' d))"

definition items_of :: "runtime \<Rightarrow> error + document list \<Rightarrow> error + document list" where
  "items_of rt r = (case r of Inl e \<Rightarrow> Inl e | Inr docs \<Rightarrow> Inr (map (id_to_string rt) docs))"

definition limit_or :: "int \<Rightarrow> int option \<Rightarrow> int" where
  "limit_or dflt l = (case l of None \<Rightarrow> dflt | Some n \<Rightarrow> n)"

definition list_products ::
  "runtime \<Rightarrow> database option \<Rightarrow> string option \<Rightarrow> string option \<Rightarrow> string option \<Rightarrow>
   real option \<Rightarrow> real option \<Rightarrow> int option \<Rightarrow> error + document list" where
  "list_products rt db q category_p brand_p min_price max_price limit =
     (case db of
        None \<Rightarrow> Inl (HTTPException 500 ''Database unavailable'')
      | Some s \<Rightarrow>
          items_of rt (get_documents rt db ''product''
            (products_query q category_p brand_p min_price max_price) (limit_or 50 limit)))"

definition list_categories :: "runtime \<Rightarrow> database option \<Rightarrow> int option \<Rightarrow> error + document list" where
  "list_categories rt db limit = items_of rt (get_documents rt db ''category'' [] (limit_or 100 limit))"

text \<open>\<open>user_email: str\<close> has no default: the framework rejects a request without it.\<close>

definition get_wishlist ::
  "runtime \<Rightarrow> database option \<Rightarrow> string option \<Rightarrow> int option \<Rightarrow> error + document list" where
  "get_wishlist rt db user_email limit =
     (case user_email of
        None \<Rightarrow> Inl ValidationError
      | Some u \<Rightarrow>
          items_of rt (get_documents rt db ''wishlist'' [(''user_email'', CEq u)] (limit_or 100 limit)))"

definition list_orders ::
  "runtime \<Rightarrow> database option \<Rightarrow> string option \<Rightarrow> int option \<Rightarrow> error + document list" where
  "list_orders rt db user_email limit =
     (case user_email of
        None \<Rightarrow> Inl ValidationError
      | Some u \<Rightarrow>
          items_of rt (get_documents rt db ''order'' [(''user_email'', CEq u)] (limit_or 50 limit)))"

section \<open>The diagnostic handler\<close>

text \<open>
  The response dict of \<open>test_database\<close>. Its status texts start with symbols outside
  ASCII, so each literal of the source is a constructor here: \<open>NotAvailable\<close> is
  "Not Available", \<open>Available\<close> is "Available", \<open>ConnectedWorking\<close> is "Connected &
  Working", \<open>ConnectedButError m\<close> is "Connected but Error: " followed by \<open>m\<close>,
  \<open>AvailableNotInitialized\<close> is "Available but not initialized" and \<open>ErrorStatus m\<close> is
  "Error: " followed by \<open>m\<close>; \<open>Configured\<close>, \<open>IsSet\<close> and \<open>NotSet\<close> are "Configured",
  "Set" and "Not Set"; \<open>NameOf n\<close> is the name of the handle and \<open>NameConnected\<close> is
  "Connected". The symbol in front of "Running" is left out too. The key \<open>database\<close> of
  the dict is the field \<open>database_st\<close>.
\<close>

datatype db_status =
    NotAvailable
  | Available
  | ConnectedWorking
  | ConnectedButError string
  | AvailableNotInitialized
  | ErrorStatus string

datatype cfg_status = Configured | IsSet | NotSet | NameOf string | NameConnected

record response =
  backend :: string
  database_st :: db_status
  database_url :: "cfg_status option"
  database_name :: "cfg_status option"
  connection_status :: string
  collections :: "string list"

text \<open>\<open>"Set" if os.getenv(k) else "Not Set"\<close>: an unset and an empty variable are false.\<close>

definition env_status :: "(string \<Rightarrow> string option) \<Rightarrow> string \<Rightarrow> cfg_status" where
  "env_status env k = (if truthy (env k) then IsSet else NotSet)"

text \<open>
  The outer \<open>try\<close> of \<open>test_database\<close>: the dict as it is when the block is left,
  normally or through one of the two handlers. The assignments made before an exception
  stay in the dict. An exception while the attribute \<open>name\<close> is read reaches the outer
  handler; one of \<open>list_collection_names\<close> reaches the inner one. Both keep the first
  50 characters of the message (\<open>str(e)[:50]\<close>).
\<close>

definition probe :: "database option \<Rightarrow> response \<Rightarrow> response" where
  "probe db response =
     (case db of
        None \<Rightarrow> response\<lparr>database_st := AvailableNotInitialized\<rparr>
      | Some d \<Rightarrow>
          (let response = response\<lparr>database_st := Available, database_url := Some Configured\<rparr>
           in case name_attr d of
                Inl m \<Rightarrow> response\<lparr>database_st := ErrorStatus (take 50 m)\<rparr>
              | Inr a \<Rightarrow>
                  (let response = response
                         \<lparr>database_name :=
                            Some (case a of Some n \<Rightarrow> NameOf n | None \<Rightarrow> NameConnected),
                          connection_status := ''Connected''\<rparr>
                   in case list_collection_names d of
                        Inr cs \<Rightarrow> response\<lparr>collections := take 10 cs,
                                           database_st := ConnectedWorking\<rparr>
                      | Inl m \<Rightarrow> response\<lparr>database_st := ConnectedButError (take 50 m)\<rparr>)))"

definition test_database ::
  "database option \<Rightarrow> (string \<Rightarrow> string option) \<Rightarrow> error + response" where
  "test_database db env =
     (let response = \<lparr>backend = ''Running'', database_st = NotAvailable,
                       database_url = None, database_name = None,
                       connection_status = ''Not Connected'', collections = []\<rparr>;
          response = probe db response
      in Inr (response\<lparr>database_url := Some (env_status env ''DATABASE_URL''),
                       database_name := Some (env_status env ''DATABASE_NAME'')\<rparr>))"

section \<open>Store states and status classes\<close>

text \<open>
  The store is unavailable when no connection was established or when the store cannot be
  reached. A status code of the 5xx class.
\<close>

definition unavailable :: "database option \<Rightarrow> bool" where
  "unavailable db = (case db of None \<Rightarrow> True | Some s \<Rightarrow> (case failure s of None \<Rightarrow> False | Some m \<Rightarrow> True))"

definition server_error :: "nat \<Rightarrow> bool" where
  "server_error code = (500 \<le> code \<and> code < 600)"

section \<open>Reading returned documents\<close>

text \<open>
  The title of the document is a string that contains \<open>q\<close> when case is ignored; the
  price of the document is a number between the two bounds, both included.
\<close>

definition title_contains :: "string \<Rightarrow> document \<Rightarrow> bool" where
  "title_contains q d = (case map_of d ''title'' of Some (VStr t) \<Rightarrow> ci_substring q t | _ \<Rightarrow> False)"

definition price_within :: "real \<Rightarrow> real \<Rightarrow> document \<Rightarrow> bool" where
  "price_within lo hi d =
     (case map_of d ''price'' of
        None \<Rightarrow> False
      | Some v \<Rightarrow> (case num_of v of None \<Rightarrow> False | Some n \<Rightarrow> lo \<le> n \<and> n \<le> hi))"

section \<open>Sample data\<close>

definition sample_runtime :: runtime where
  "sample_runtime =
     \<lparr>str_of = (\<lambda>v. case v of VOid n \<Rightarrow> replicate n (CHR ''a'') | VStr s \<Rightarrow> s | _ \<Rightarrow> []),
      regex_other = (\<lambda>p opts. None)\<rparr>"

definition empty_db :: database where
  "empty_db = \<lparr>failure = None, name_attr = Inr (Some ''shop''), colls = [], fresh = 0\<rparr>"

definition product_doc :: "nat \<Rightarrow> string \<Rightarrow> real \<Rightarrow> document" where
  "product_doc n t p =
     [(''_id'', VOid n), (''title'', VStr t), (''description'', VNull), (''price'', VFloat p),
      (''category'', VStr ''clothes''), (''brand'', VNull), (''image'', VNull),
      (''in_stock'', VBool True)]"

definition shop_db :: database where
  "shop_db = empty_db
     \<lparr>colls := [(''product'',
                  [product_doc 2 ''Blue Shirt'' (999 / 100), product_doc 3 ''SHIRTS'' 15,
                   product_doc 4 ''Pants'' (2001 / 100)]),
                (''wishlist'',
                  [[(''_id'', VOid 5), (''user_email'', VStr ''a@b.com''), (''product_id'', VStr ''p1'')],
                   [(''_id'', VOid 6), (''user_email'', VStr ''A@b.com''), (''product_id'', VStr ''p2'')]])],
      fresh := 7\<rparr>"

text \<open>Request bodies: a product with a given price, a category, a wishlist entry, an
  order item, and an order with a given payment method and list of items.\<close>

definition product_payload :: "real \<Rightarrow> document" where
  "product_payload p =
     [(''title'', VStr ''Hat''), (''price'', VFloat p), (''category'', VStr ''clothes'')]"

definition category_payload :: document where
  "category_payload = [(''name'', VStr ''Clothes''), (''slug'', VStr ''clothes'')]"

definition wishlist_payload :: document where
  "wishlist_payload = [(''user_email'', VStr ''a@b.com''), (''product_id'', VStr ''p1'')]"

definition item_payload :: val where
  "item_payload =
     VDoc [(''product_id'', VStr ''p1''), (''title'', VStr ''Hat''), (''price'', VFloat 3),
           (''quantity'', VInt 2)]"

definition order_payload :: "string \<Rightarrow> val list \<Rightarrow> document" where
  "order_payload method its =
     [(''user_email'', VStr ''a@b.com''), (''shipping_address'', VStr ''1 Main Street''),
      (''payment_method'', VStr method), (''items'', VList its), (''total'', VInt 0)]"

section \<open>Facts about the accessor and the identifier conversion\<close>

lemma matches_entry:
  "matches rt fd d \<Longrightarrow> (k, c) \<in> set fd \<Longrightarrow> holds rt c (map_of d k)"
  by (auto simp: matches_def list_all_iff)

lemma map_of_id_to_string_other:
  "k \<noteq> ''_id'' \<Longrightarrow> k \<noteq> ''id'' \<Longrightarrow> map_of (id_to_string rt d) k = map_of d k"
  by (simp add: id_to_string_def AList.update_conv' AList.delete_conv' split: option.splits)



lemma get_documents_Inr:
  assumes "get_documents rt db coll fd limit = Inr docs"
  shows "\<exists>s. db = Some s \<and> failure s = None \<and>
           docs = take (nat limit) (filter (matches rt fd) (docs_of s coll))"
  using assms by (auto simp: get_documents_def split: option.splits if_splits)

lemma get_documents_member:
  assumes "get_documents rt db coll fd limit = Inr docs" and "d \<in> set docs"
  shows "matches rt fd d \<and> (\<exists>s. db = Some s \<and> d \<in> set (docs_of s coll))"
proof -
  from get_documents_Inr [OF assms(1)] obtain s where
    s: "db = Some s" "docs = take (nat limit) (filter (matches rt fd) (docs_of s coll))"
    by blast
  from assms(2) s(2) have "d \<in> set (filter (matches rt fd) (docs_of s coll))"
    by (auto dest: in_set_takeD)
  with s(1) show ?thesis by auto
qed

lemma items_of_Inr:
  "items_of rt r = Inr its \<Longrightarrow> \<exists>docs. r = Inr docs \<and> its = map (id_to_string rt) docs"
  by (auto simp: items_of_def split: sum.splits)

lemma products_query_price:
  "map_of (products_query q c b lo hi) ''price'' =
     (if lo = None \<and> hi = None then None else Some (CRange lo hi))"
  by (simp add: products_query_def Let_def AList.update_conv')

lemma products_query_price_once:
  "length (filter (\<lambda>(k, c). k = ''price'') (products_query q c b lo hi)) \<le> 1"
  by (simp add: products_query_def Let_def)

lemma docs_of_appended:
  "docs_of (s\<lparr>colls := AList.update c (docs_of s c @ [doc]) (colls s), fresh := n\<rparr>) c' =
     (if c' = c then docs_of s c @ [doc] else docs_of s c')"
  by (simp add: docs_of_def AList.update_conv')


lemma get_documents_unavailable:
  "unavailable db \<Longrightarrow> get_documents rt db coll fd n = Inl StoreUnavailable"
  by (auto simp: unavailable_def get_documents_def split: option.splits)

lemma create_document_unavailable:
  "unavailable db \<Longrightarrow> create_document rt db coll data = (Inl StoreUnavailable, db)"
  by (auto simp: unavailable_def create_document_def split: option.splits)

lemma fst_create_document:
  "fst (create_document rt db c data) = fst (create_document rt db c data')"
  by (simp add: create_document_def Let_def split: option.splits)

section \<open>The sample requests\<close>

lemma wish_eval:
  "get_wishlist sample_runtime (Some shop_db) (Some ''a@b.com'') None =
     Inr [[(''user_email'', VStr ''a@b.com''), (''product_id'', VStr ''p1''),
           (''id'', VStr (str_of sample_runtime (VOid 5)))]]"
  by (simp add: get_wishlist_def get_documents_def shop_db_def empty_db_def cond_ok_def
      matches_def holds_def docs_of_def items_of_def limit_or_def id_to_string_def)

lemma hat_valid:
  "validate_Product (product_payload 5) =
     Inr \<lparr>title = ''Hat'', description = None, price = 5, category = ''clothes'',
          brand = None, image = None, in_stock = True\<rparr>"
  by (simp add: validate_Product_def product_payload_def bind_err_def req_str_def opt_str_def
      req_float_ge_def bool_default_def num_of_def)


lemma category_valid:
  "validate_Category category_payload = Inr \<lparr>cat_name = ''Clothes'', slug = ''clothes''\<rparr>"
  by (simp add: validate_Category_def category_payload_def bind_err_def req_str_def)

lemma wishlist_valid:
  "validate_Wishlist wishlist_payload =
     Inr \<lparr>wish_user_email = ''a@b.com'', wish_product_id = ''p1''\<rparr>"
  by (simp add: validate_Wishlist_def wishlist_payload_def bind_err_def req_str_def)

lemma order_valid:
  "validate_Order (order_payload m []) =
     Inr \<lparr>order_user_email = ''a@b.com'', shipping_address = ''1 Main Street'',
          payment_method = m, status = ''pending'', items = [], total = 0\<rparr>"
  by (simp add: validate_Order_def order_payload_def bind_err_def req_str_def
      str_default_def req_items_def req_float_ge_def num_of_def)

lemma item_valid:
  "validate_items [item_payload] =
     Inr [\<lparr>item_product_id = ''p1'', item_title = ''Hat'', item_price = 3, quantity = 2\<rparr>]"
  by (simp add: validate_OrderItem_def item_payload_def bind_err_def req_str_def
      req_float_ge_def req_int_ge_def num_of_def)

lemma hat_invalid: "validate_Product (product_payload (- 1)) = Inl ValidationError"
  by (simp add: validate_Product_def product_payload_def bind_err_def req_str_def opt_str_def
      req_float_ge_def num_of_def)

lemma empty_body_invalid:
  "validate_Category [] = Inl ValidationError"
  "validate_Wishlist [] = Inl ValidationError"
  "validate_Order [] = Inl ValidationError"
  by (simp_all add: validate_Category_def validate_Wishlist_def validate_Order_def bind_err_def
      req_str_def)

section \<open>Creation: validation comes first\<close>

lemma req_str_error: "req_str p k = Inl e \<Longrightarrow> e = ValidationError"
  by (auto simp: req_str_def split: option.splits val.splits)

lemma opt_str_error: "opt_str p k = Inl e \<Longrightarrow> e = ValidationError"
  by (auto simp: opt_str_def split: option.splits val.splits)

lemma req_float_ge_error: "req_float_ge p k lo = Inl e \<Longrightarrow> e = ValidationError"
  by (auto simp: req_float_ge_def split: option.splits if_splits)

lemma req_int_ge_error: "req_int_ge p k lo = Inl e \<Longrightarrow> e = ValidationError"
  by (auto simp: req_int_ge_def split: option.splits val.splits if_splits)

lemma str_default_error: "str_default p k d = Inl e \<Longrightarrow> e = ValidationError"
  by (auto simp: str_default_def split: option.splits val.splits)

lemma bool_default_error: "bool_default p k d = Inl e \<Longrightarrow> e = ValidationError"
  by (auto simp: bool_default_def split: option.splits val.splits)

lemma validate_Product_error: "validate_Product p = Inl e \<Longrightarrow> e = ValidationError"
  by (auto simp: validate_Product_def bind_err_def split: sum.splits
      dest: req_str_error opt_str_error req_float_ge_error bool_default_error)

lemma validate_Category_error: "validate_Category p = Inl e \<Longrightarrow> e = ValidationError"
  by (auto simp: validate_Category_def bind_err_def split: sum.splits dest: req_str_error)

lemma validate_Wishlist_error: "validate_Wishlist p = Inl e \<Longrightarrow> e = ValidationError"
  by (auto simp: validate_Wishlist_def bind_err_def split: sum.splits dest: req_str_error)

lemma validate_OrderItem_error: "validate_OrderItem v = Inl e \<Longrightarrow> e = ValidationError"
  by (auto simp: validate_OrderItem_def bind_err_def split: val.splits sum.splits
      dest: req_str_error req_float_ge_error req_int_ge_error)

lemma validate_items_error: "validate_items vs = Inl e \<Longrightarrow> e = ValidationError"
  by (induction vs)
     (auto simp: bind_err_def split: sum.splits dest: validate_OrderItem_error)

lemma req_items_error: "req_items p k = Inl e \<Longrightarrow> e = ValidationError"
  by (auto simp: req_items_def split: option.splits val.splits dest: validate_items_error)

lemma validate_Order_error: "validate_Order p = Inl e \<Longrightarrow> e = ValidationError"
  by (auto simp: validate_Order_def bind_err_def split: sum.splits
      dest: req_str_error str_default_error req_items_error req_float_ge_error)


lemma create_invalid_rejected:
  "validate_Product p = Inl e \<Longrightarrow> create_product rt db p = (Inl ValidationError, db)"
  "validate_Category p = Inl e \<Longrightarrow> create_category rt db p = (Inl ValidationError, db)"
  "validate_Wishlist p = Inl e \<Longrightarrow> add_to_wishlist rt db p = (Inl ValidationError, db)"
  "validate_Order p = Inl e \<Longrightarrow> create_order rt db p = (Inl ValidationError, db)"
  by (auto simp: create_product_def create_category_def add_to_wishlist_def create_order_def
      dest: validate_Product_error validate_Category_error validate_Wishlist_error
        validate_Order_error)

lemma validate_Product_negative_price:
  assumes "map_of payload ''price'' = Some v" and "num_of v = Some x" and "x < 0"
  shows "validate_Product payload = Inl ValidationError"
proof -
  have "req_float_ge payload ''price'' 0 = Inl ValidationError"
    using assms by (simp add: req_float_ge_def)
  then show ?thesis
    by (auto simp: validate_Product_def bind_err_def split: sum.splits
          dest: req_str_error opt_str_error)
qed

text \<open>
  C1. A Product payload whose price is a number below zero is rejected by
  \<open>create_product\<close> with a ValidationError, whatever the state of the store (connected,
  unreachable or never connected), and the store is left exactly as it was: no document
  is inserted, the accessor is not reached.
\<close>

theorem create_product_negative_price:
  assumes "map_of payload ''price'' = Some v" and "num_of v = Some x" and "x < 0"
  shows "create_product rt db payload = (Inl ValidationError, db)"
  using validate_Product_negative_price [OF assms]
  by (simp add: create_product_def)

theorem create_product_negative_price_witness:
  "map_of [(''title'', VStr ''Hat''), (''price'', VFloat (- 1)), (''category'', VStr ''clothes'')]
      ''price'' = Some (VFloat (- 1)) \<and>
   num_of (VFloat (- 1)) = Some (- 1) \<and> (- 1 :: real) < 0 \<and>
   create_product sample_runtime (Some shop_db)
      [(''title'', VStr ''Hat''), (''price'', VFloat (- 1)), (''category'', VStr ''clothes'')] =
     (Inl ValidationError, Some shop_db)"
proof -
  have a: "map_of [(''title'', VStr ''Hat''), (''price'', VFloat (- 1)),
                   (''category'', VStr ''clothes'')] ''price'' = Some (VFloat (- 1))"
    by simp
  have b: "num_of (VFloat (- 1)) = Some (- 1)" by (simp add: num_of_def)
  have c: "(- 1 :: real) < 0" by simp
  show ?thesis
    using a b c create_product_negative_price [OF a b c, of sample_runtime "Some shop_db"]
    by simp
qed

section \<open>Listing products: the price bounds\<close>

lemma price_within_id_to_string: "price_within lo hi (id_to_string rt d) = price_within lo hi d"
  by (simp add: price_within_def map_of_id_to_string_other)

text \<open>
  C2. When \<open>list_products\<close> is called with both \<open>min_price\<close> and \<open>max_price\<close>, every
  returned product has a numeric price with \<open>min_price \<le> price \<le> max_price\<close>, both
  bounds included. The filter holds one entry for the field \<open>price\<close>, the range made of
  the two parameters, exactly when at least one of them is supplied.
\<close>

theorem list_products_price_range:
  "(list_products rt db q c b (Some lo) (Some hi) limit = Inr docs \<longrightarrow>
      (\<forall>d \<in> set docs. price_within lo hi d)) \<and>
   map_of (products_query q c b mn mx) ''price'' =
      (if mn = None \<and> mx = None then None else Some (CRange mn mx)) \<and>
   length (filter (\<lambda>(k, c). k = ''price'') (products_query q c b mn mx)) \<le> 1"
proof -
  have "price_within lo hi d"
    if r: "list_products rt db q c b (Some lo) (Some hi) limit = Inr docs" and d: "d \<in> set docs"
    for d
  proof -
    let ?fd = "products_query q c b (Some lo) (Some hi)"
    from r obtain stored where
      g: "get_documents rt db ''product'' ?fd (limit_or 50 limit) = Inr stored" and
      docs: "docs = map (id_to_string rt) stored"
      by (auto simp: list_products_def split: option.splits dest: items_of_Inr)
    from d docs obtain d0 where d0: "d0 \<in> set stored" "d = id_to_string rt d0" by auto
    have "matches rt ?fd d0" using get_documents_member [OF g d0(1)] by simp
    moreover have "(''price'', CRange (Some lo) (Some hi)) \<in> set ?fd"
      by (rule map_of_SomeD) (simp add: products_query_price)
    ultimately have "holds rt (CRange (Some lo) (Some hi)) (map_of d0 ''price'')"
      by (rule matches_entry)
    then have "price_within lo hi d0"
      by (auto simp: holds_def price_within_def in_range_def split: option.splits)
    then show ?thesis by (simp add: d0(2) price_within_id_to_string)
  qed
  then show ?thesis
    using products_query_price_once [of q c b mn mx] by (simp add: products_query_price)
qed

theorem list_products_price_range_witness:
  "list_products sample_runtime (Some shop_db) None None None (Some 10) (Some 20) None =
     Inr [id_to_string sample_runtime (product_doc 3 ''SHIRTS'' 15)] \<and>
   price_within 10 20 (id_to_string sample_runtime (product_doc 3 ''SHIRTS'' 15)) \<and>
   \<not> price_within 10 20 (product_doc 2 ''Blue Shirt'' (999 / 100)) \<and>
   \<not> price_within 10 20 (product_doc 4 ''Pants'' (2001 / 100))"
proof -
  have r: "list_products sample_runtime (Some shop_db) None None None (Some 10) (Some 20) None =
     Inr [id_to_string sample_runtime (product_doc 3 ''SHIRTS'' 15)]"
    by (simp add: list_products_def get_documents_def shop_db_def empty_db_def
        products_query_def truthy_def cond_ok_def matches_def holds_def in_range_def num_of_def
        docs_of_def product_doc_def items_of_def limit_or_def)
  have "price_within 10 20 (id_to_string sample_runtime (product_doc 3 ''SHIRTS'' 15))"
    using list_products_price_range
      [of sample_runtime "Some shop_db" None None None 10 20 None
          "[id_to_string sample_runtime (product_doc 3 ''SHIRTS'' 15)]" None None]
      r by simp
  moreover have "\<not> price_within 10 20 (product_doc 2 ''Blue Shirt'' (999 / 100))"
    by (simp add: price_within_def product_doc_def num_of_def)
  moreover have "\<not> price_within 10 20 (product_doc 4 ''Pants'' (2001 / 100))"
    by (simp add: price_within_def product_doc_def num_of_def)
  ultimately show ?thesis using r by simp
qed

section \<open>Listing products: the text search\<close>

lemma parse_simple_literal:
  "set q \<inter> set regex_meta = {} \<Longrightarrow> parse_simple q = Some (map Lit q)"
  by (induction q) (auto simp: regex_meta_def)

lemma rx_here_literal:
  "rx_here True (map Lit q) t \<longleftrightarrow> prefix (map lower q) (map lower t)"
proof (induction q arbitrary: t)
  case Nil
  then show ?case by simp
next
  case (Cons a q)
  then show ?case by (cases t) auto
qed

lemma rx_search_literal:
  "rx_search True (map Lit q) t \<longleftrightarrow> ci_substring q t"
proof (induction t)
  case Nil
  then show ?case by (cases q) (simp_all add: ci_substring_def)
next
  case (Cons c t)
  have "rx_search True (map Lit q) (c # t) \<longleftrightarrow>
          rx_here True (map Lit q) (c # t) \<or> rx_search True (map Lit q) t"
    by simp
  also have "\<dots> \<longleftrightarrow> prefix (map lower q) (map lower (c # t)) \<or> ci_substring q t"
    using Cons.IH rx_here_literal by simp
  also have "\<dots> \<longleftrightarrow> ci_substring q (c # t)"
    by (simp add: ci_substring_def sublist_Cons_right)
  finally show ?case .
qed

lemma compile_regex_literal:
  "set q \<inter> set regex_meta = {} \<Longrightarrow> compile_regex rt q ''i'' = Some (rx_search True (map Lit q))"
  by (simp add: compile_regex_def parse_simple_literal)

lemma matches_text_query:
  assumes "set q \<inter> set regex_meta = {}"
  shows "matches rt [(''title'', CRegex q ''i'')] d = title_contains q d"
  using compile_regex_literal [OF assms, of rt]
  by (simp add: matches_def holds_def title_contains_def rx_search_literal
      split: option.splits val.splits)

text \<open>
  The text of C3 fails on a pattern character: \<open>q\<close> is handed to the store as a regular
  expression, the dot matches any character, so the product titled Pants is returned for
  \<open>q = "."\<close> although its title does not contain a dot.
\<close>

theorem list_products_regex_counterexample:
  "\<not> ci_substring ''.'' ''Pants'' \<and>
   list_products sample_runtime (Some shop_db) (Some ''.'') None None None None None =
     Inr (map (id_to_string sample_runtime)
       [product_doc 2 ''Blue Shirt'' (999 / 100), product_doc 3 ''SHIRTS'' 15,
        product_doc 4 ''Pants'' (2001 / 100)])"
  by (simp add: ci_substring_def lower_def sublist_Cons_right
      list_products_def get_documents_def shop_db_def empty_db_def products_query_def
      truthy_def text_of_def cond_ok_def compile_regex_def matches_def holds_def docs_of_def
      product_doc_def items_of_def limit_or_def)

text \<open>
  C3, amended. When \<open>q\<close> is not empty and holds no operator character of regular
  expressions, no other filter is given and the store is reachable, \<open>list_products\<close>
  returns, with their identifiers converted, the first \<open>limit\<close> stored products whose
  title is a string containing \<open>q\<close> as a substring when case is ignored, and no other
  product.
\<close>

theorem list_products_text_search:
  assumes "q \<noteq> []" and "set q \<inter> set regex_meta = {}" and "failure s = None"
  shows "list_products rt (Some s) (Some q) None None None None limit =
           Inr (map (id_to_string rt)
                  (take (nat (limit_or 50 limit)) (filter (title_contains q) (docs_of s ''product''))))"
proof -
  have q: "products_query (Some q) None None None None = [(''title'', CRegex q ''i'')]"
    using assms(1) by (simp add: products_query_def truthy_def text_of_def)
  have ok: "cond_ok rt (CRegex q ''i'')"
    using compile_regex_literal [OF assms(2), of rt] by (simp add: cond_ok_def)
  have m: "matches rt [(''title'', CRegex q ''i'')] = title_contains q"
    using matches_text_query [OF assms(2)] by (intro ext) simp
  show ?thesis
    using assms(3) ok by (simp add: list_products_def q get_documents_def m items_of_def)
qed

theorem list_products_text_search_witness:
  "list_products sample_runtime (Some shop_db) (Some ''shirt'') None None None None None =
     Inr [id_to_string sample_runtime (product_doc 2 ''Blue Shirt'' (999 / 100)),
          id_to_string sample_runtime (product_doc 3 ''SHIRTS'' 15)]"
proof -
  have a: "''shirt'' \<noteq> []" by simp
  have b: "set ''shirt'' \<inter> set regex_meta = {}" by (simp add: regex_meta_def)
  have c: "failure shop_db = None" by (simp add: shop_db_def empty_db_def)
  have d: "docs_of shop_db ''product'' =
      [product_doc 2 ''Blue Shirt'' (999 / 100), product_doc 3 ''SHIRTS'' 15,
       product_doc 4 ''Pants'' (2001 / 100)]"
    by (simp add: docs_of_def shop_db_def empty_db_def)
  have e: "title_contains ''shirt'' (product_doc 2 ''Blue Shirt'' (999 / 100))"
    by (simp add: title_contains_def product_doc_def ci_substring_def lower_def sublist_Cons_right)
  have f: "title_contains ''shirt'' (product_doc 3 ''SHIRTS'' 15)"
    by (simp add: title_contains_def product_doc_def ci_substring_def lower_def sublist_Cons_right)
  have g: "\<not> title_contains ''shirt'' (product_doc 4 ''Pants'' (2001 / 100))"
    by (simp add: title_contains_def product_doc_def ci_substring_def lower_def sublist_Cons_right)
  show ?thesis
    using list_products_text_search [OF a b c, of sample_runtime None]
    by (simp add: d e f g limit_or_def)
qed

section \<open>Listing: the identifier conversion\<close>





section \<open>The store is unavailable\<close>

text \<open>
  The text of C5 fails on a request that does not pass validation: the framework rejects
  it with status 422 before the store is looked at, also when there is no connection.
\<close>

theorem unavailable_invalid_payload_counterexample:
  "unavailable None \<and>
   http_status (fst (create_product sample_runtime None
      [(''title'', VStr ''Hat''), (''price'', VFloat (- 1)), (''category'', VStr ''clothes'')])) = 422 \<and>
   http_status (get_wishlist sample_runtime None None None) = 422"
  by (simp add: unavailable_def create_product_def validate_Product_def bind_err_def req_str_def
      opt_str_def req_float_ge_def num_of_def http_status_def get_wishlist_def)

text \<open>
  C5, amended. When no connection was established or the store cannot be reached, every
  list handler whose required parameter is present, and every create handler whose body
  passes validation, fails with a status of the 5xx class, and a create handler leaves
  the store as it was. A request that does not pass validation (a wishlist or order
  listing without \<open>user_email\<close>, a body that its record type rejects) is rejected with
  the validation error, status 422, and the store is left as it was.
\<close>

theorem data_endpoints_unavailable:
  assumes "unavailable db"
  shows "server_error (http_status (list_products rt db q c b lo hi l)) \<and>
         server_error (http_status (list_categories rt db l)) \<and>
         server_error (http_status (get_wishlist rt db (Some u) l)) \<and>
         server_error (http_status (list_orders rt db (Some u) l)) \<and>
         (validate_Product pp = Inr pr \<longrightarrow>
            server_error (http_status (fst (create_product rt db pp))) \<and>
            snd (create_product rt db pp) = db) \<and>
         (validate_Category pc = Inr ca \<longrightarrow>
            server_error (http_status (fst (create_category rt db pc))) \<and>
            snd (create_category rt db pc) = db) \<and>
         (validate_Wishlist pw = Inr wi \<longrightarrow>
            server_error (http_status (fst (add_to_wishlist rt db pw))) \<and>
            snd (add_to_wishlist rt db pw) = db) \<and>
         (validate_Order po = Inr ord \<longrightarrow>
            server_error (http_status (fst (create_order rt db po))) \<and>
            snd (create_order rt db po) = db) \<and>
         get_wishlist rt db None l = Inl ValidationError \<and>
         http_status (get_wishlist rt db None l) = 422 \<and>
         list_orders rt db None l = Inl ValidationError \<and>
         http_status (list_orders rt db None l) = 422 \<and>
         (validate_Product pp = Inl e1 \<longrightarrow>
            create_product rt db pp = (Inl ValidationError, db) \<and>
            http_status (fst (create_product rt db pp)) = 422) \<and>
         (validate_Category pc = Inl e2 \<longrightarrow>
            create_category rt db pc = (Inl ValidationError, db) \<and>
            http_status (fst (create_category rt db pc)) = 422) \<and>
         (validate_Wishlist pw = Inl e3 \<longrightarrow>
            add_to_wishlist rt db pw = (Inl ValidationError, db) \<and>
            http_status (fst (add_to_wishlist rt db pw)) = 422) \<and>
         (validate_Order po = Inl e4 \<longrightarrow>
            create_order rt db po = (Inl ValidationError, db) \<and>
            http_status (fst (create_order rt db po)) = 422)"
proof -
  note g = get_documents_unavailable [OF assms] and c = create_document_unavailable [OF assms]
  have l1: "server_error (http_status (list_products rt db q c b lo hi l))"
    using g [of rt "''product''" "products_query q c b lo hi" "limit_or 50 l"]
    by (cases db) (simp_all add: list_products_def items_of_def http_status_def server_error_def)
  have l2: "server_error (http_status (list_categories rt db l))"
    by (simp add: list_categories_def g items_of_def http_status_def server_error_def)
  have l3: "server_error (http_status (get_wishlist rt db (Some u) l))"
    by (simp add: get_wishlist_def g items_of_def http_status_def server_error_def)
  have l4: "server_error (http_status (list_orders rt db (Some u) l))"
    by (simp add: list_orders_def g items_of_def http_status_def server_error_def)
  have v1: "validate_Product pp = Inr pr \<longrightarrow>
      server_error (http_status (fst (create_product rt db pp))) \<and>
      snd (create_product rt db pp) = db"
    by (simp add: create_product_def c http_status_def server_error_def)
  have v2: "validate_Category pc = Inr ca \<longrightarrow>
      server_error (http_status (fst (create_category rt db pc))) \<and>
      snd (create_category rt db pc) = db"
    by (simp add: create_category_def c http_status_def server_error_def)
  have v3: "validate_Wishlist pw = Inr wi \<longrightarrow>
      server_error (http_status (fst (add_to_wishlist rt db pw))) \<and>
      snd (add_to_wishlist rt db pw) = db"
    by (simp add: add_to_wishlist_def c http_status_def server_error_def)
  have v4: "validate_Order po = Inr ord \<longrightarrow>
      server_error (http_status (fst (create_order rt db po))) \<and>
      snd (create_order rt db po) = db"
    by (simp add: create_order_def c http_status_def server_error_def)
  have m1: "get_wishlist rt db None l = Inl ValidationError \<and>
      http_status (get_wishlist rt db None l) = 422"
    by (simp add: get_wishlist_def http_status_def)
  have m2: "list_orders rt db None l = Inl ValidationError \<and>
      http_status (list_orders rt db None l) = 422"
    by (simp add: list_orders_def http_status_def)
  have i1: "validate_Product pp = Inl e1 \<longrightarrow>
      create_product rt db pp = (Inl ValidationError, db) \<and>
      http_status (fst (create_product rt db pp)) = 422"
    by (simp add: create_invalid_rejected(1) http_status_def)
  have i2: "validate_Category pc = Inl e2 \<longrightarrow>
      create_category rt db pc = (Inl ValidationError, db) \<and>
      http_status (fst (create_category rt db pc)) = 422"
    by (simp add: create_invalid_rejected(2) http_status_def)
  have i3: "validate_Wishlist pw = Inl e3 \<longrightarrow>
      add_to_wishlist rt db pw = (Inl ValidationError, db) \<and>
      http_status (fst (add_to_wishlist rt db pw)) = 422"
    by (simp add: create_invalid_rejected(3) http_status_def)
  have i4: "validate_Order po = Inl e4 \<longrightarrow>
      create_order rt db po = (Inl ValidationError, db) \<and>
      http_status (fst (create_order rt db po)) = 422"
    by (simp add: create_invalid_rejected(4) http_status_def)
  from l1 l2 l3 l4 v1 v2 v3 v4 m1 m2 i1 i2 i3 i4 show ?thesis
    by (intro conjI) (erule conjunct1 conjunct2 | assumption)+
qed

theorem data_endpoints_unavailable_witness:
  "unavailable (Some (shop_db\<lparr>failure := Some ''timed out''\<rparr>)) \<and>
   server_error (http_status (list_products sample_runtime
      (Some (shop_db\<lparr>failure := Some ''timed out''\<rparr>)) None None None None None None)) \<and>
   server_error (http_status (list_categories sample_runtime
      (Some (shop_db\<lparr>failure := Some ''timed out''\<rparr>)) None)) \<and>
   server_error (http_status (get_wishlist sample_runtime
      (Some (shop_db\<lparr>failure := Some ''timed out''\<rparr>)) (Some ''a@b.com'') None)) \<and>
   server_error (http_status (list_orders sample_runtime
      (Some (shop_db\<lparr>failure := Some ''timed out''\<rparr>)) (Some ''a@b.com'') None)) \<and>
   server_error (http_status (fst (create_product sample_runtime
      (Some (shop_db\<lparr>failure := Some ''timed out''\<rparr>)) (product_payload 5)))) \<and>
   server_error (http_status (fst (create_category sample_runtime
      (Some (shop_db\<lparr>failure := Some ''timed out''\<rparr>)) category_payload))) \<and>
   server_error (http_status (fst (add_to_wishlist sample_runtime
      (Some (shop_db\<lparr>failure := Some ''timed out''\<rparr>)) wishlist_payload))) \<and>
   server_error (http_status (fst (create_order sample_runtime
      (Some (shop_db\<lparr>failure := Some ''timed out''\<rparr>)) (order_payload ''cod'' [])))) \<and>
   http_status (get_wishlist sample_runtime
      (Some (shop_db\<lparr>failure := Some ''timed out''\<rparr>)) None None) = 422 \<and>
   http_status (list_orders sample_runtime
      (Some (shop_db\<lparr>failure := Some ''timed out''\<rparr>)) None None) = 422 \<and>
   create_product sample_runtime (Some (shop_db\<lparr>failure := Some ''timed out''\<rparr>))
      (product_payload (- 1)) =
     (Inl ValidationError, Some (shop_db\<lparr>failure := Some ''timed out''\<rparr>)) \<and>
   create_category sample_runtime (Some (shop_db\<lparr>failure := Some ''timed out''\<rparr>)) [] =
     (Inl ValidationError, Some (shop_db\<lparr>failure := Some ''timed out''\<rparr>)) \<and>
   add_to_wishlist sample_runtime (Some (shop_db\<lparr>failure := Some ''timed out''\<rparr>)) [] =
     (Inl ValidationError, Some (shop_db\<lparr>failure := Some ''timed out''\<rparr>)) \<and>
   create_order sample_runtime (Some (shop_db\<lparr>failure := Some ''timed out''\<rparr>)) [] =
     (Inl ValidationError, Some (shop_db\<lparr>failure := Some ''timed out''\<rparr>))"
proof -
  define db where "db = Some (shop_db\<lparr>failure := Some ''timed out''\<rparr>)"
  have u: "unavailable db" by (simp add: db_def unavailable_def)
  note t = data_endpoints_unavailable [OF u, of sample_runtime None None None None None None
      "''a@b.com''" "product_payload 5" _ category_payload _ wishlist_payload _
      "order_payload ''cod'' []"]
  note t' = data_endpoints_unavailable [OF u, of sample_runtime None None None None None None
      "''a@b.com''" "product_payload (- 1)" _ "[]" _ "[]" _ "[]" _
      ValidationError ValidationError ValidationError ValidationError]
  show ?thesis
    using u t t' hat_valid category_valid wishlist_valid order_valid [of "''cod''"]
      hat_invalid empty_body_invalid
    unfolding db_def by simp
qed

section \<open>The diagnostic handler always answers\<close>

text \<open>
  C6. \<open>test_database\<close> returns its response dict with status 200 for every state of the
  connection and every environment. Without a connection the database status is the
  not-initialised text; a failure caught by either handler is reported as a status text
  that ends with the first 50 characters of the message, so that this part is never
  longer than 50 characters.
\<close>

theorem test_database_always_answers:
  "\<exists>r. test_database db env = Inr r \<and>
       http_status (test_database db env) = 200 \<and>
       database_st r =
         (case db of
            None \<Rightarrow> AvailableNotInitialized
          | Some d \<Rightarrow>
              (case name_attr d of
                 Inl m \<Rightarrow> ErrorStatus (take 50 m)
               | Inr a \<Rightarrow>
                   (case list_collection_names d of
                      Inl m \<Rightarrow> ConnectedButError (take 50 m)
                    | Inr cs \<Rightarrow> ConnectedWorking))) \<and>
       (case database_st r of
          ConnectedButError m \<Rightarrow> length m \<le> 50
        | ErrorStatus m \<Rightarrow> length m \<le> 50
        | _ \<Rightarrow> True)"
  by (simp add: test_database_def probe_def http_status_def Let_def
      split: option.splits sum.splits)

theorem test_database_always_answers_witness:
  "http_status (test_database (Some (shop_db\<lparr>failure := Some (replicate 60 (CHR ''e''))\<rparr>))
      (\<lambda>k. None)) = 200 \<and>
   (\<exists>r. test_database (Some (shop_db\<lparr>failure := Some (replicate 60 (CHR ''e''))\<rparr>))
          (\<lambda>k. None) = Inr r \<and>
        database_st r = ConnectedButError (replicate 50 (CHR ''e'')))"
  using test_database_always_answers
    [of "Some (shop_db\<lparr>failure := Some (replicate 60 (CHR ''e''))\<rparr>)" "\<lambda>k. None"]
  by (auto simp: list_collection_names_def shop_db_def empty_db_def)

section \<open>The wishlist of a user\<close>

text \<open>
  C7. \<open>get_wishlist\<close> without \<open>user_email\<close> fails with a ValidationError; with
  \<open>user_email\<close> supplied, every returned entry has a field \<open>user_email\<close> that is exactly
  the supplied string.
\<close>

theorem get_wishlist_user_email:
  "get_wishlist rt db None l = Inl ValidationError \<and>
   (get_wishlist rt db (Some u) l = Inr its \<longrightarrow>
      (\<forall>d \<in> set its. map_of d ''user_email'' = Some (VStr u)))"
proof -
  have "map_of d ''user_email'' = Some (VStr u)"
    if r: "get_wishlist rt db (Some u) l = Inr its" and d: "d \<in> set its" for d
  proof -
    from r obtain docs where
      g: "get_documents rt db ''wishlist'' [(''user_email'', CEq u)] (limit_or 100 l) = Inr docs"
      and its: "its = map (id_to_string rt) docs"
      by (auto simp: get_wishlist_def dest: items_of_Inr)
    from d its obtain d0 where d0: "d0 \<in> set docs" "d = id_to_string rt d0" by auto
    have "matches rt [(''user_email'', CEq u)] d0" using get_documents_member [OF g d0(1)] by simp
    then have "map_of d0 ''user_email'' = Some (VStr u)"
      by (simp add: matches_def holds_def)
    then show ?thesis by (simp add: d0(2) map_of_id_to_string_other)
  qed
  then show ?thesis by (simp add: get_wishlist_def)
qed

theorem get_wishlist_user_email_witness:
  "get_wishlist sample_runtime (Some shop_db) None None = Inl ValidationError \<and>
   get_wishlist sample_runtime (Some shop_db) (Some ''a@b.com'') None =
     Inr [[(''user_email'', VStr ''a@b.com''), (''product_id'', VStr ''p1''),
           (''id'', VStr (str_of sample_runtime (VOid 5)))]] \<and>
   map_of [(''user_email'', VStr ''a@b.com''), (''product_id'', VStr ''p1''),
           (''id'', VStr (str_of sample_runtime (VOid 5)))] ''user_email'' =
     Some (VStr ''a@b.com'')"
proof -
  define w where "w = [(''user_email'', VStr ''a@b.com''), (''product_id'', VStr ''p1''),
             (''id'', VStr (str_of sample_runtime (VOid 5)))]"
  note t = get_wishlist_user_email [of sample_runtime "Some shop_db" None "''a@b.com''" "[w]"]
  have e: "get_wishlist sample_runtime (Some shop_db) (Some ''a@b.com'') None = Inr [w]"
    using wish_eval by (simp add: w_def)
  from t [THEN conjunct2, THEN mp, OF e] have "map_of w ''user_email'' = Some (VStr ''a@b.com'')"
    by simp
  with t [THEN conjunct1] e show ?thesis unfolding w_def by simp
qed

section \<open>Orders: payment method and items\<close>

lemma validate_Order_payment_method:
  assumes "validate_Order p = Inr ord"
  shows "map_of p ''payment_method'' = Some (VStr (payment_method ord))"
proof -
  from assms obtain m where m: "req_str p ''payment_method'' = Inr m" "payment_method ord = m"
    by (auto simp: validate_Order_def bind_err_def split: sum.splits)
  from m(1) have "map_of p ''payment_method'' = Some (VStr m)"
    by (auto simp: req_str_def split: option.splits val.splits)
  with m(2) show ?thesis by simp
qed

lemma validate_Order_any_method:
  assumes "validate_Order p = Inr ord"
  shows "validate_Order (AList.update ''payment_method'' (VStr m) p) =
           Inr (ord\<lparr>payment_method := m\<rparr>)"
  using assms
  by (auto simp: validate_Order_def bind_err_def req_str_def str_default_def req_items_def
      req_float_ge_def AList.update_conv' split: sum.splits)

text \<open>
  The text of C8 fails: an order whose payment method is the string bitcoin is accepted
  and inserted.
\<close>

theorem create_order_other_method_counterexample:
  "fst (create_order sample_runtime (Some shop_db) (order_payload ''bitcoin'' [])) = Inr (str_of sample_runtime (VOid 7)) \<and>
   map_of (order_payload ''bitcoin'' []) ''payment_method'' = Some (VStr ''bitcoin'') \<and>
   ''bitcoin'' \<noteq> ''online'' \<and> ''bitcoin'' \<noteq> ''cod''"
  by (simp add: create_order_def validate_Order_def order_payload_def bind_err_def req_str_def
      str_default_def req_items_def req_float_ge_def num_of_def create_document_def shop_db_def empty_db_def
      sample_runtime_def)

text \<open>
  C8, amended. Every body accepted by \<open>create_order\<close> has a field \<open>payment_method\<close>
  that is a string, and the string is not restricted: the same body with any other string
  as payment method is accepted as well.
\<close>

theorem create_order_payment_method:
  assumes "fst (create_order rt db p) = Inr oid"
  shows "(\<exists>m. map_of p ''payment_method'' = Some (VStr m)) \<and>
         fst (create_order rt db (AList.update ''payment_method'' (VStr m') p)) = Inr oid"
proof -
  from assms obtain ord where v: "validate_Order p = Inr ord"
    and c: "fst (create_document rt db ''order'' (dump_Order ord)) = Inr oid"
    by (auto simp: create_order_def split: sum.splits)
  have "fst (create_order rt db (AList.update ''payment_method'' (VStr m') p)) =
        fst (create_document rt db ''order'' (dump_Order (ord\<lparr>payment_method := m'\<rparr>)))"
    by (simp add: create_order_def validate_Order_any_method [OF v])
  also have "\<dots> = Inr oid"
    using c fst_create_document [of rt db "''order''" "dump_Order (ord\<lparr>payment_method := m'\<rparr>)"
        "dump_Order ord"] by simp
  finally show ?thesis using validate_Order_payment_method [OF v] by blast
qed

theorem create_order_payment_method_witness:
  "fst (create_order sample_runtime (Some shop_db) (order_payload ''cod'' [])) =
     Inr (str_of sample_runtime (VOid 7)) \<and>
   (\<exists>m. map_of (order_payload ''cod'' []) ''payment_method'' = Some (VStr m)) \<and>
   fst (create_order sample_runtime (Some shop_db)
          (AList.update ''payment_method'' (VStr ''bitcoin'') (order_payload ''cod'' []))) =
     Inr (str_of sample_runtime (VOid 7))"
proof -
  have a: "fst (create_order sample_runtime (Some shop_db) (order_payload ''cod'' [])) =
     Inr (str_of sample_runtime (VOid 7))"
    by (simp add: create_order_def order_valid create_document_def shop_db_def empty_db_def
        Let_def)
  show ?thesis
    using a create_order_payment_method [OF a, of "''bitcoin''"] by simp
qed

lemma validate_OrderItem_bounds:
  "validate_OrderItem v = Inr it \<Longrightarrow> 0 \<le> item_price it \<and> 1 \<le> quantity it"
  by (auto simp: validate_OrderItem_def bind_err_def req_float_ge_def req_int_ge_def
      split: val.splits sum.splits option.splits if_splits)

lemma validate_items_bounds:
  "validate_items vs = Inr its \<Longrightarrow> \<forall>it \<in> set its. 0 \<le> item_price it \<and> 1 \<le> quantity it"
proof (induction vs arbitrary: its)
  case Nil
  then show ?case by simp
next
  case (Cons v vs)
  then show ?case
    by (auto simp: bind_err_def split: sum.splits dest: validate_OrderItem_bounds)
qed

text \<open>
  C9. \<open>create_order\<close> accepts a body whose list of items is empty: the body validates
  to an order without items and, on a reachable store, the handler returns the new
  identifier and the collection of orders ends with the new document, which holds the
  identifier, the fields of the body, the default status and the empty list of items;
  \<open>list_orders\<close> for the customer then returns this document with its identifier
  converted. Validation bounds each item that is present (price at least 0, quantity at
  least 1) and nothing bounds their number.
\<close>

theorem create_order_empty_items:
  "map_of (order_payload ''cod'' []) ''items'' = Some (VList []) \<and>
   validate_Order (order_payload ''cod'' []) =
     Inr \<lparr>order_user_email = ''a@b.com'', shipping_address = ''1 Main Street'',
          payment_method = ''cod'', status = ''pending'', items = [], total = 0\<rparr> \<and>
   (failure s = None \<longrightarrow>
      (\<exists>s'. create_order rt (Some s) (order_payload ''cod'' []) =
              (Inr (str_of rt (VOid (fresh s))), Some s') \<and>
            docs_of s' ''order'' =
              docs_of s ''order'' @
              [[(''_id'', VOid (fresh s)), (''user_email'', VStr ''a@b.com''),
                (''shipping_address'', VStr ''1 Main Street''),
                (''payment_method'', VStr ''cod''), (''status'', VStr ''pending''),
                (''items'', VList []), (''total'', VFloat 0)]] \<and>
            failure s' = None \<and>
            (int (length (docs_of s ''order'')) < limit_or 50 l \<longrightarrow>
               (\<exists>listed. list_orders rt (Some s') (Some ''a@b.com'') l = Inr listed \<and>
                  listed \<noteq> [] \<and>
                  last listed =
                    [(''user_email'', VStr ''a@b.com''),
                     (''shipping_address'', VStr ''1 Main Street''),
                     (''payment_method'', VStr ''cod''), (''status'', VStr ''pending''),
                     (''items'', VList []), (''total'', VFloat 0),
                     (''id'', VStr (str_of rt (VOid (fresh s))))])))) \<and>
   (validate_items vs = Inr its \<longrightarrow> (\<forall>it \<in> set its. 0 \<le> item_price it \<and> 1 \<le> quantity it))"
proof -
  let ?doc = "[(''_id'', VOid (fresh s)), (''user_email'', VStr ''a@b.com''),
                (''shipping_address'', VStr ''1 Main Street''),
                (''payment_method'', VStr ''cod''), (''status'', VStr ''pending''),
                (''items'', VList []), (''total'', VFloat 0)]"
  let ?out = "[(''user_email'', VStr ''a@b.com''),
                     (''shipping_address'', VStr ''1 Main Street''),
                     (''payment_method'', VStr ''cod''), (''status'', VStr ''pending''),
                     (''items'', VList []), (''total'', VFloat 0),
                     (''id'', VStr (str_of rt (VOid (fresh s))))]"
  define s' where "s' = s\<lparr>colls := AList.update ''order'' (docs_of s ''order'' @ [?doc]) (colls s),
                          fresh := Suc (fresh s)\<rparr>"
  have a: "map_of (order_payload ''cod'' []) ''items'' = Some (VList [])"
    by (simp add: order_payload_def)
  have v: "validate_Order (order_payload ''cod'' []) =
     Inr \<lparr>order_user_email = ''a@b.com'', shipping_address = ''1 Main Street'',
          payment_method = ''cod'', status = ''pending'', items = [], total = 0\<rparr>"
    by (rule order_valid)
  have c: "create_order rt (Some s) (order_payload ''cod'' []) =
      (Inr (str_of rt (VOid (fresh s))), Some s')" if "failure s = None"
    using that by (simp add: create_order_def v create_document_def Let_def dump_Order_def s'_def)
  have d: "docs_of s' ''order'' = docs_of s ''order'' @ [?doc]"
    by (simp add: s'_def docs_of_appended)
  have f: "failure s' = None" if "failure s = None"
    using that by (simp add: s'_def)
  have conv: "id_to_string rt ?doc = ?out"
    by (simp add: id_to_string_def)
  have m: "matches rt [(''user_email'', CEq ''a@b.com'')] ?doc"
    by (simp add: matches_def holds_def)
  have lst: "\<exists>listed. list_orders rt (Some s') (Some ''a@b.com'') l = Inr listed \<and>
      listed \<noteq> [] \<and> last listed = ?out"
    if fs: "failure s = None" and len: "int (length (docs_of s ''order'')) < limit_or 50 l"
  proof -
    let ?old = "filter (matches rt [(''user_email'', CEq ''a@b.com'')]) (docs_of s ''order'')"
    define n where "n = length ?old"
    have "n \<le> length (docs_of s ''order'')" unfolding n_def by (rule length_filter_le)
    with len have "Suc n \<le> nat (limit_or 50 l)" by linarith
    then have "length (?old @ [?doc]) \<le> nat (limit_or 50 l)" by (simp add: n_def)
    then have tk: "take (nat (limit_or 50 l)) (?old @ [?doc]) = ?old @ [?doc]"
      by (rule take_all)
    have "list_orders rt (Some s') (Some ''a@b.com'') l =
        Inr (map (id_to_string rt) ?old @ [?out])"
      using f [OF fs] m tk
      by (simp add: list_orders_def get_documents_def cond_ok_def d items_of_def conv
          del: take_append)
    then show ?thesis by simp
  qed
  have b: "validate_items vs = Inr its \<longrightarrow>
      (\<forall>it \<in> set its. 0 \<le> item_price it \<and> 1 \<le> quantity it)"
    using validate_items_bounds by blast
  have e: "failure s = None \<longrightarrow>
      (\<exists>s'. create_order rt (Some s) (order_payload ''cod'' []) =
              (Inr (str_of rt (VOid (fresh s))), Some s') \<and>
            docs_of s' ''order'' = docs_of s ''order'' @ [?doc] \<and>
            failure s' = None \<and>
            (int (length (docs_of s ''order'')) < limit_or 50 l \<longrightarrow>
               (\<exists>listed. list_orders rt (Some s') (Some ''a@b.com'') l = Inr listed \<and>
                  listed \<noteq> [] \<and> last listed = ?out)))"
    using c d f lst by (intro impI exI [of _ s'] conjI) simp_all
  from a v e b show ?thesis by (intro conjI)
qed

theorem create_order_empty_items_witness:
  "failure shop_db = None \<and>
   (\<exists>s' listed.
      create_order sample_runtime (Some shop_db) (order_payload ''cod'' []) =
        (Inr (str_of sample_runtime (VOid 7)), Some s') \<and>
      docs_of s' ''order'' =
        [[(''_id'', VOid 7), (''user_email'', VStr ''a@b.com''),
          (''shipping_address'', VStr ''1 Main Street''),
          (''payment_method'', VStr ''cod''), (''status'', VStr ''pending''),
          (''items'', VList []), (''total'', VFloat 0)]] \<and>
      list_orders sample_runtime (Some s') (Some ''a@b.com'') None = Inr listed \<and>
      last listed =
        [(''user_email'', VStr ''a@b.com''), (''shipping_address'', VStr ''1 Main Street''),
         (''payment_method'', VStr ''cod''), (''status'', VStr ''pending''),
         (''items'', VList []), (''total'', VFloat 0),
         (''id'', VStr (str_of sample_runtime (VOid 7)))]) \<and>
   validate_items [item_payload] =
     Inr [\<lparr>item_product_id = ''p1'', item_title = ''Hat'', item_price = 3, quantity = 2\<rparr>] \<and>
   (0::real) \<le> 3 \<and> (1::int) \<le> 2"
proof -
  define it where
    "it = \<lparr>item_product_id = ''p1'', item_title = ''Hat'', item_price = 3, quantity = 2\<rparr>"
  let ?doc = "[(''_id'', VOid (fresh shop_db)), (''user_email'', VStr ''a@b.com''),
                (''shipping_address'', VStr ''1 Main Street''),
                (''payment_method'', VStr ''cod''), (''status'', VStr ''pending''),
                (''items'', VList []), (''total'', VFloat 0)]"
  let ?out = "[(''user_email'', VStr ''a@b.com''),
                     (''shipping_address'', VStr ''1 Main Street''),
                     (''payment_method'', VStr ''cod''), (''status'', VStr ''pending''),
                     (''items'', VList []), (''total'', VFloat 0),
                     (''id'', VStr (str_of sample_runtime (VOid (fresh shop_db))))]"
  have fs: "failure shop_db = None" by (simp add: shop_db_def empty_db_def)
  have fr: "fresh shop_db = 7" by (simp add: shop_db_def empty_db_def)
  have dz: "docs_of shop_db ''order'' = []" by (simp add: docs_of_def shop_db_def empty_db_def)
  have len: "int (length (docs_of shop_db ''order'')) < limit_or 50 None"
    by (simp add: dz limit_or_def)
  have v: "validate_items [item_payload] = Inr [it]" using item_valid by (simp add: it_def)
  note t = create_order_empty_items [of shop_db sample_runtime None "[item_payload]" "[it]"]
  from t [THEN conjunct2, THEN conjunct2, THEN conjunct1, THEN mp, OF fs] obtain s' where
    s': "create_order sample_runtime (Some shop_db) (order_payload ''cod'' []) =
           (Inr (str_of sample_runtime (VOid (fresh shop_db))), Some s')"
      "docs_of s' ''order'' = docs_of shop_db ''order'' @ [?doc]"
      "int (length (docs_of shop_db ''order'')) < limit_or 50 None \<longrightarrow>
         (\<exists>listed. list_orders sample_runtime (Some s') (Some ''a@b.com'') None = Inr listed \<and>
            listed \<noteq> [] \<and> last listed = ?out)"
    by (elim exE conjE) (rule that)
  from s'(3) [THEN mp, OF len] obtain listed where
    l: "list_orders sample_runtime (Some s') (Some ''a@b.com'') None = Inr listed"
      "last listed = ?out"
    by (elim exE conjE) (rule that)
  from t [THEN conjunct2, THEN conjunct2, THEN conjunct2, THEN mp, OF v]
  have b: "0 \<le> item_price it \<and> 1 \<le> quantity it" by simp
  have "\<exists>s' listed.
      create_order sample_runtime (Some shop_db) (order_payload ''cod'' []) =
        (Inr (str_of sample_runtime (VOid (fresh shop_db))), Some s') \<and>
      docs_of s' ''order'' = docs_of shop_db ''order'' @ [?doc] \<and>
      list_orders sample_runtime (Some s') (Some ''a@b.com'') None = Inr listed \<and>
      last listed = ?out"
    using s'(1,2) l by (intro exI [of _ s'] exI [of _ listed] conjI)
  then show ?thesis
    using fs v b unfolding fr dz it_def by simp
qed

section \<open>Empty strings and zero bounds in the product filter\<close>

text \<open>
  C10. In \<open>list_products\<close> an empty string for \<open>q\<close>, \<open>category\<close> or \<open>brand\<close> gives the
  filter of an absent parameter, while a bound of zero for \<open>min_price\<close> or \<open>max_price\<close>
  is part of the range entry for \<open>price\<close>; without both bounds there is no such entry.
\<close>

theorem products_query_empty_and_zero:
  "products_query (Some []) c b lo hi = products_query None c b lo hi \<and>
   products_query q (Some []) b lo hi = products_query q None b lo hi \<and>
   products_query q c (Some []) lo hi = products_query q c None lo hi \<and>
   list_products rt db (Some []) (Some []) (Some []) lo hi l =
     list_products rt db None None None lo hi l \<and>
   map_of (products_query q c b (Some 0) hi) ''price'' = Some (CRange (Some 0) hi) \<and>
   map_of (products_query q c b lo (Some 0)) ''price'' = Some (CRange lo (Some 0)) \<and>
   map_of (products_query q c b None None) ''price'' = None"
proof -
  have e: "products_query (Some []) c b lo hi = products_query None c b lo hi"
    "products_query q (Some []) b lo hi = products_query q None b lo hi"
    "products_query q c (Some []) lo hi = products_query q c None lo hi" for q c b
    by (simp_all add: products_query_def truthy_def)
  have "list_products rt db (Some []) (Some []) (Some []) lo hi l =
          list_products rt db None None None lo hi l"
    by (cases db) (simp_all add: list_products_def e)
  then show ?thesis by (simp add: e products_query_price)
qed

theorem products_query_empty_and_zero_witness:
  "products_query (Some []) (Some ''clothes'') None (Some 0) None =
     products_query None (Some ''clothes'') None (Some 0) None \<and>
   map_of (products_query None (Some ''clothes'') None (Some 0) None) ''price'' =
     Some (CRange (Some 0) None) \<and>
   map_of (products_query None (Some ''clothes'') None None None) ''price'' = None"
  using products_query_empty_and_zero
    [of "Some ''clothes''" None "Some 0" None None sample_runtime None None]
  by simp

end
